theory Spec2Isabelle
  imports Main "HOL-Library.Word" "HOL-Library.AList" "HOL-Library.Log_Nat"
begin

section \<open>Shader entry points of the GLES context (contextShader.cpp)\<close>

text \<open>
  The development embeds the member functions of \<^verbatim>\<open>Context\<close> that are defined in
  \<^verbatim>\<open>GLES/source/context/contextShader.cpp\<close>. The context, the resource manager and the
  shader objects are records; every entry point takes the context and returns the updated
  one together with the values it writes through its output pointers.
\<close>

subsection \<open>Machine types and API constants\<close>

text \<open>
  \<^verbatim>\<open>GLuint\<close>, \<^verbatim>\<open>GLenum\<close> and \<^verbatim>\<open>uint32_t\<close> are unsigned 32-bit integers, \<^verbatim>\<open>GLint\<close> and
  \<^verbatim>\<open>GLsizei\<close> are signed 32-bit integers. All are 32-bit words; the signed ones are read
  with \<open>sint\<close> and compared with the signed orders.
\<close>

type_synonym GLuint = "32 word"
type_synonym GLenum = "32 word"
type_synonym GLint = "32 word"
type_synonym GLsizei = "32 word"
type_synonym uint32_t = "32 word"
type_synonym byte = "8 word"

text \<open>The enumerants used by the file, with their values from the GLES2 API header.\<close>

definition GL_NO_ERROR :: GLenum where "GL_NO_ERROR = 0"
definition GL_INVALID_ENUM :: GLenum where "GL_INVALID_ENUM = 0x0500"
definition GL_INVALID_VALUE :: GLenum where "GL_INVALID_VALUE = 0x0501"
definition GL_INVALID_OPERATION :: GLenum where "GL_INVALID_OPERATION = 0x0502"
definition GL_FALSE :: GLint where "GL_FALSE = 0"
definition GL_TRUE :: GLint where "GL_TRUE = 1"
definition GL_FRAGMENT_SHADER :: GLenum where "GL_FRAGMENT_SHADER = 0x8B30"
definition GL_VERTEX_SHADER :: GLenum where "GL_VERTEX_SHADER = 0x8B31"
definition GL_SHADER_TYPE :: GLenum where "GL_SHADER_TYPE = 0x8B4F"
definition GL_DELETE_STATUS :: GLenum where "GL_DELETE_STATUS = 0x8B80"
definition GL_COMPILE_STATUS :: GLenum where "GL_COMPILE_STATUS = 0x8B81"
definition GL_INFO_LOG_LENGTH :: GLenum where "GL_INFO_LOG_LENGTH = 0x8B84"
definition GL_SHADER_SOURCE_LENGTH :: GLenum where "GL_SHADER_SOURCE_LENGTH = 0x8B88"
definition GL_LOW_FLOAT :: GLenum where "GL_LOW_FLOAT = 0x8DF0"
definition GL_MEDIUM_FLOAT :: GLenum where "GL_MEDIUM_FLOAT = 0x8DF1"
definition GL_HIGH_FLOAT :: GLenum where "GL_HIGH_FLOAT = 0x8DF2"
definition GL_LOW_INT :: GLenum where "GL_LOW_INT = 0x8DF3"
definition GL_MEDIUM_INT :: GLenum where "GL_MEDIUM_INT = 0x8DF4"
definition GL_HIGH_INT :: GLenum where "GL_HIGH_INT = 0x8DF5"

lemmas GL_defs =
  GL_NO_ERROR_def GL_INVALID_ENUM_def GL_INVALID_VALUE_def GL_INVALID_OPERATION_def
  GL_FALSE_def GL_TRUE_def GL_FRAGMENT_SHADER_def GL_VERTEX_SHADER_def GL_SHADER_TYPE_def
  GL_DELETE_STATUS_def GL_COMPILE_STATUS_def GL_INFO_LOG_LENGTH_def
  GL_SHADER_SOURCE_LENGTH_def GL_LOW_FLOAT_def GL_MEDIUM_FLOAT_def GL_HIGH_FLOAT_def
  GL_LOW_INT_def GL_MEDIUM_INT_def GL_HIGH_INT_def

subsection \<open>Data model\<close>

text \<open>
  The two kinds of shading object that share one handle space, and the namespace entry
  \<^verbatim>\<open>ShadingNamespace_t\<close> (built in \<^verbatim>\<open>CreateShader\<close> as \<^verbatim>\<open>{SHADER_ID, res}\<close>).
\<close>

datatype shadingNamespaceType_t = SHADER_ID | SHADER_PROGRAM_ID

record ShadingNamespace_t =
  type :: shadingNamespaceType_t
  arrayIndex :: uint32_t

datatype shader_type_t = SHADER_TYPE_VERTEX | SHADER_TYPE_FRAGMENT

text \<open>
  Modelled from the spec: the class \<^verbatim>\<open>Shader\<close> is declared outside this file. Its state is
  the attribute list of the specification's data model: kind, optional source text,
  optional compiled artifact, optional info log, the compiled and marked-for-deletion
  flags and the reference to the compiler instance; \<open>referrers\<close> is the number of
  programs that currently hold the shader attached. Texts are stored without their
  terminator. A compiler instance is identified by its heap address.
\<close>

record Shader =
  kind :: shader_type_t
  sourceText :: "byte list option"
  compiledArtifact :: "byte list option"
  infoLog :: "byte list option"
  isCompiled :: bool
  markedForDeletion :: bool
  referrers :: nat
  compilerRef :: "nat option"

text \<open>
  Modelled from the spec: the class \<^verbatim>\<open>ShaderProgram\<close>; only its compiler reference is
  touched by this file.
\<close>

record ShaderProgram =
  programCompilerRef :: "nat option"

text \<open>
  Modelled from the spec: the class \<^verbatim>\<open>ResourceManager\<close>. The namespace maps a handle to
  its entry; the two object arrays are the \<^verbatim>\<open>std::map<uint32_t, T *>\<close> containers that
  \<^verbatim>\<open>CreateShaderCompiler\<close> iterates, kept as association lists from storage index to the
  object stored there; the purge list is the set of shaders whose reclamation is deferred.
  A pointer to a stored shader is its storage index.
\<close>

record ResourceManager =
  mShadingObjectCount :: GLuint
  mShadingObjectPool :: "GLuint \<rightharpoonup> ShadingNamespace_t"
  mShaderArray :: "(uint32_t \<times> Shader) list"
  mShaderProgramArray :: "(uint32_t \<times> ShaderProgram) list"
  mPurgeListShader :: "uint32_t set"

text \<open>
  The part of \<^verbatim>\<open>Context\<close> the file reads and writes: the resource manager, the compiler
  instance (\<open>None\<close> is the null pointer), the error slot, the answer of
  \<^verbatim>\<open>GetBooleanv(GL_SHADER_COMPILER)\<close>, the draw state of the write framebuffer, the
  number of flushes issued, and the next free heap address for \<^verbatim>\<open>new\<close>.
\<close>

record Context =
  mResourceManager :: ResourceManager
  mShaderCompiler :: "nat option"
  lastError :: GLenum
  shaderCompilerSupport :: bool
  writeFBOInDrawState :: bool
  flushCount :: nat
  heapNext :: nat

subsection \<open>Collaborators\<close>

text \<open>
  Modelled from the spec: \<^verbatim>\<open>Context::RecordError\<close> stores the code in the per-context
  last-error slot.
\<close>

definition RecordError :: "Context \<Rightarrow> GLenum \<Rightarrow> Context" where
  "RecordError c e = c\<lparr>lastError := e\<rparr>"

text \<open>
  Modelled from the spec: the queries of the resource manager used by handle resolution.
  A handle is registered when the namespace has an entry for it; a storage index with no
  stored object yields the null pointer.
\<close>

definition GetShadingObjectCount :: "ResourceManager \<Rightarrow> GLuint" where
  "GetShadingObjectCount rm = mShadingObjectCount rm"

definition ShadingObjectExists :: "ResourceManager \<Rightarrow> GLuint \<Rightarrow> bool" where
  "ShadingObjectExists rm h = (mShadingObjectPool rm h \<noteq> None)"

definition GetShadingObject :: "ResourceManager \<Rightarrow> GLuint \<Rightarrow> ShadingNamespace_t option" where
  "GetShadingObject rm h = mShadingObjectPool rm h"

definition GetShader :: "ResourceManager \<Rightarrow> uint32_t \<Rightarrow> (uint32_t \<times> Shader) option" where
  "GetShader rm i = (case map_of (mShaderArray rm) i of None \<Rightarrow> None | Some sh \<Rightarrow> Some (i, sh))"

subsection \<open>Handle resolution\<close>

text \<open>
  \<^verbatim>\<open>Context::GetShaderPtr\<close>. The result pointer is \<open>None\<close> for \<^verbatim>\<open>nullptr\<close>, otherwise the
  storage index together with the object it points to, as read when the pointer is
  obtained. The comparison with the object count is unsigned. The namespace lookup after
  the existence test always finds the entry; its \<open>None\<close> case is never taken.
\<close>

definition GetShaderPtr :: "Context \<Rightarrow> GLuint \<Rightarrow> Context \<times> (uint32_t \<times> Shader) option" where
  "GetShaderPtr c shader =
     (if shader = 0 \<or> GetShadingObjectCount (mResourceManager c) \<le> shader
         \<or> \<not> ShadingObjectExists (mResourceManager c) shader
      then (RecordError c GL_INVALID_VALUE, None)
      else (case GetShadingObject (mResourceManager c) shader of
              None \<Rightarrow> (RecordError c GL_INVALID_VALUE, None)
            | Some shadId \<Rightarrow>
                if arrayIndex shadId = 0 \<or> type shadId \<noteq> SHADER_ID
                then (RecordError c GL_INVALID_OPERATION, None)
                else (c, GetShader (mResourceManager c) (arrayIndex shadId))))"

subsection \<open>Shader methods\<close>

text \<open>
  Modelled from the spec: the member functions of \<^verbatim>\<open>Shader\<close> called by this file.
  \<^verbatim>\<open>FreeForDeletion\<close> holds iff the shader is marked for deletion and no program holds it
  attached. \<^verbatim>\<open>GetInfoLog\<close> and \<^verbatim>\<open>GetShaderSource\<close> hand out a fresh terminated copy of
  the text (the caller frees it with \<^verbatim>\<open>delete[]\<close>), or the null pointer when there is no
  text; the two length queries report the terminated length, as a \<^verbatim>\<open>GLint\<close>. The length
  reported when there is no text is not fixed by the specification and is taken as 0.
\<close>

definition HasSource :: "Shader \<Rightarrow> bool" where
  "HasSource sh = (sourceText sh \<noteq> None)"

definition IsCompiled :: "Shader \<Rightarrow> bool" where
  "IsCompiled sh = isCompiled sh"

definition GetMarkForDeletion :: "Shader \<Rightarrow> bool" where
  "GetMarkForDeletion sh = markedForDeletion sh"

definition SetMarkForDeletion :: "Shader \<Rightarrow> bool \<Rightarrow> Shader" where
  "SetMarkForDeletion sh b = sh\<lparr>markedForDeletion := b\<rparr>"

definition FreeForDeletion :: "Shader \<Rightarrow> bool" where
  "FreeForDeletion sh = (markedForDeletion sh \<and> referrers sh = 0)"

definition GetShaderType :: "Shader \<Rightarrow> shader_type_t" where
  "GetShaderType sh = kind sh"

definition SetShaderCompiler :: "Shader \<Rightarrow> nat option \<Rightarrow> Shader" where
  "SetShaderCompiler sh cp = sh\<lparr>compilerRef := cp\<rparr>"

definition SetProgramShaderCompiler :: "ShaderProgram \<Rightarrow> nat option \<Rightarrow> ShaderProgram" where
  "SetProgramShaderCompiler pr cp = pr\<lparr>programCompilerRef := cp\<rparr>"

definition terminated :: "byte list \<Rightarrow> byte list" where
  "terminated t = t @ [0]"

definition GetInfoLog :: "Shader \<Rightarrow> byte list option" where
  "GetInfoLog sh = (case infoLog sh of None \<Rightarrow> None | Some t \<Rightarrow> Some (terminated t))"

definition GetInfoLogLength :: "Shader \<Rightarrow> GLint" where
  "GetInfoLogLength sh =
     (case infoLog sh of None \<Rightarrow> 0 | Some t \<Rightarrow> word_of_nat (length (terminated t)))"

definition Shader_GetShaderSource :: "Shader \<Rightarrow> byte list option" where
  "Shader_GetShaderSource sh = (case sourceText sh of None \<Rightarrow> None | Some t \<Rightarrow> Some (terminated t))"

definition GetShaderSourceLength :: "Shader \<Rightarrow> GLint" where
  "GetShaderSourceLength sh =
     (case sourceText sh of None \<Rightarrow> 0 | Some t \<Rightarrow> word_of_nat (length (terminated t)))"

subsection \<open>Resource manager updates\<close>

text \<open>
  Modelled from the spec: \<^verbatim>\<open>EraseShadingObject\<close> removes the namespace entry and frees
  nothing; \<^verbatim>\<open>DeallocateShader\<close> releases the storage of the shader pointed to;
  \<^verbatim>\<open>AddToPurgeList\<close> puts the shader into the purge list, which is a set;
  \<^verbatim>\<open>IsShadingObject\<close> holds iff the handle resolves with the given kind. \<open>StoreShader\<close>
  writes an object back through its pointer.
\<close>

definition EraseShadingObject :: "ResourceManager \<Rightarrow> GLuint \<Rightarrow> ResourceManager" where
  "EraseShadingObject rm h = rm\<lparr>mShadingObjectPool := (mShadingObjectPool rm)(h := None)\<rparr>"

definition DeallocateShader :: "ResourceManager \<Rightarrow> uint32_t \<Rightarrow> ResourceManager" where
  "DeallocateShader rm p = rm\<lparr>mShaderArray := AList.delete p (mShaderArray rm)\<rparr>"

definition AddToPurgeList :: "ResourceManager \<Rightarrow> uint32_t \<Rightarrow> ResourceManager" where
  "AddToPurgeList rm p = rm\<lparr>mPurgeListShader := insert p (mPurgeListShader rm)\<rparr>"

definition StoreShader :: "ResourceManager \<Rightarrow> uint32_t \<Rightarrow> Shader \<Rightarrow> ResourceManager" where
  "StoreShader rm p sh = rm\<lparr>mShaderArray := AList.update p sh (mShaderArray rm)\<rparr>"

definition IsShadingObject :: "ResourceManager \<Rightarrow> GLuint \<Rightarrow> shadingNamespaceType_t \<Rightarrow> bool" where
  "IsShadingObject rm h k =
     (h \<noteq> 0 \<and> h < mShadingObjectCount rm \<and>
      (case mShadingObjectPool rm h of
         None \<Rightarrow> False
       | Some e \<Rightarrow> arrayIndex e \<noteq> 0 \<and> type e = k))"

subsection \<open>Compiler capability\<close>

text \<open>
  \<^verbatim>\<open>Context::HasShaderCompiler\<close>: reads the capability with
  \<^verbatim>\<open>GetBooleanv(GL_SHADER_COMPILER, ...)\<close> and records \<^verbatim>\<open>GL_INVALID_OPERATION\<close> when it is
  absent.
\<close>

definition HasShaderCompiler :: "Context \<Rightarrow> Context \<times> bool" where
  "HasShaderCompiler c =
     (let compilerSupport = shaderCompilerSupport c in
      if \<not> compilerSupport then (RecordError c GL_INVALID_OPERATION, False)
      else (c, True))"

text \<open>
  \<^verbatim>\<open>Context::CreateShaderCompiler\<close>. The two loops walk the object maps in key order and
  set the compiler of each stored object; \<^verbatim>\<open>new\<close> takes the next free heap address.
\<close>

primrec rebind_shaders :: "nat option \<Rightarrow> (uint32_t \<times> Shader) list \<Rightarrow> (uint32_t \<times> Shader) list" where
  "rebind_shaders cp [] = []"
| "rebind_shaders cp (it # rest) =
     (fst it, SetShaderCompiler (snd it) cp) # rebind_shaders cp rest"

primrec rebind_programs ::
  "nat option \<Rightarrow> (uint32_t \<times> ShaderProgram) list \<Rightarrow> (uint32_t \<times> ShaderProgram) list" where
  "rebind_programs cp [] = []"
| "rebind_programs cp (it # rest) =
     (fst it, SetProgramShaderCompiler (snd it) cp) # rebind_programs cp rest"

definition CreateShaderCompiler :: "Context \<Rightarrow> Context" where
  "CreateShaderCompiler c =
     (if mShaderCompiler c = None then
        (let c1 = c\<lparr>mShaderCompiler := Some (heapNext c), heapNext := Suc (heapNext c)\<rparr>;
             rm = mResourceManager c1
         in c1\<lparr>mResourceManager := rm
               \<lparr>mShaderArray := rebind_shaders (mShaderCompiler c1) (mShaderArray rm),
                mShaderProgramArray :=
                  rebind_programs (mShaderCompiler c1) (mShaderProgramArray rm)\<rparr>\<rparr>)
      else c)"

subsection \<open>Deletion\<close>

text \<open>
  Modelled from the spec: \<^verbatim>\<open>Flush\<close> belongs to the rendering-submission collaborator; only
  the fact that it ran is kept.
\<close>

definition Flush :: "Context \<Rightarrow> Context" where
  "Flush c = c\<lparr>flushCount := Suc (flushCount c)\<rparr>"

text \<open>
  \<^verbatim>\<open>Context::DeleteShader\<close>. The context that runs the call is the current context, so
  \<^verbatim>\<open>GetCurrentContext()->GetResourceManager()\<close> is its own resource manager.
\<close>

definition DeleteShader :: "Context \<Rightarrow> GLuint \<Rightarrow> Context" where
  "DeleteShader c shader =
     (if shader = 0 then c
      else (case GetShaderPtr c shader of
              (c1, None) \<Rightarrow> c1
            | (c1, Some (p, sh)) \<Rightarrow>
                (let sh' = SetMarkForDeletion sh True;
                     c2 = c1\<lparr>mResourceManager := StoreShader (mResourceManager c1) p sh'\<rparr>
                 in if FreeForDeletion sh' then
                      (let c3 = (if writeFBOInDrawState c2 then Flush c2 else c2)
                       in c3\<lparr>mResourceManager :=
                            DeallocateShader (EraseShadingObject (mResourceManager c3) shader) p\<rparr>)
                    else c2\<lparr>mResourceManager := AddToPurgeList (mResourceManager c2) p\<rparr>)))"

subsection \<open>Queries\<close>

text \<open>
  \<^verbatim>\<open>Context::GetShaderiv\<close>. The output \<^verbatim>\<open>*params\<close> is passed in with its old content and
  returned with its new one.
\<close>

definition GetShaderiv :: "Context \<Rightarrow> GLuint \<Rightarrow> GLenum \<Rightarrow> GLint \<Rightarrow> Context \<times> GLint" where
  "GetShaderiv c shader pname params =
     (case GetShaderPtr c shader of
        (c1, None) \<Rightarrow> (c1, params)
      | (c1, Some (p, sh)) \<Rightarrow>
          (let (c2, params') =
                 (if pname = GL_COMPILE_STATUS then
                    (c1, if IsCompiled sh then GL_TRUE else GL_FALSE)
                  else if pname = GL_DELETE_STATUS then
                    (c1, if GetMarkForDeletion sh then GL_TRUE else GL_FALSE)
                  else if pname = GL_INFO_LOG_LENGTH then (c1, GetInfoLogLength sh)
                  else if pname = GL_SHADER_SOURCE_LENGTH then (c1, GetShaderSourceLength sh)
                  else if pname = GL_SHADER_TYPE then
                    (c1, if GetShaderType sh = SHADER_TYPE_FRAGMENT
                         then GL_FRAGMENT_SHADER else GL_VERTEX_SHADER)
                  else (RecordError c1 GL_INVALID_ENUM, params))
           in (fst (HasShaderCompiler c2), params')))"

text \<open>
  Memory. The caller's buffer is the memory at the destination pointer, indexed by byte
  offset. The string handed out by the shader is a heap array of known size;
  \<^verbatim>\<open>memcpy\<close> of more bytes than it holds is a fault.
\<close>

datatype fault = OutOfBoundsRead

definition memcpy :: "(nat \<Rightarrow> byte) \<Rightarrow> byte list \<Rightarrow> nat \<Rightarrow> fault + (nat \<Rightarrow> byte)" where
  "memcpy dst src n =
     (if n \<le> length src then Inr (\<lambda>i. if i < n then src ! i else dst i)
      else Inl OutOfBoundsRead)"

text \<open>\<^verbatim>\<open>std::min\<close> and \<^verbatim>\<open>std::max\<close> at type \<^verbatim>\<open>int\<close>.\<close>

definition std_min :: "GLint \<Rightarrow> GLint \<Rightarrow> GLint" where
  "std_min a b = (if b <s a then b else a)"

definition std_max :: "GLint \<Rightarrow> GLint \<Rightarrow> GLint" where
  "std_max a b = (if a <s b then b else a)"

text \<open>
  The copy shared by the two string queries, from the computation of \<^verbatim>\<open>returnedLen\<close> to
  the store of the terminator. The output \<^verbatim>\<open>length\<close> is \<open>None\<close> for a null pointer and
  otherwise holds the content of the variable pointed to.
\<close>

definition copy_out ::
  "byte list \<Rightarrow> GLint \<Rightarrow> GLsizei \<Rightarrow> GLsizei option \<Rightarrow> (nat \<Rightarrow> byte)
     \<Rightarrow> fault + (GLsizei option \<times> (nat \<Rightarrow> byte))" where
  "copy_out str len bufsize lengthp dst =
     (let returnedLen = std_max (std_min bufsize len - 1) 0;
          length' = (case lengthp of None \<Rightarrow> None | Some old \<Rightarrow> Some returnedLen)
      in if returnedLen \<noteq> 0 then
           (case memcpy dst str (unat returnedLen) of
              Inl f \<Rightarrow> Inl f
            | Inr m \<Rightarrow> Inr (length', m(unat returnedLen := 0)))
         else
           (case memcpy dst str 1 of
              Inl f \<Rightarrow> Inl f
            | Inr m \<Rightarrow> Inr (length', m(0 := 0))))"

text \<open>\<^verbatim>\<open>Context::GetShaderInfoLog\<close>.\<close>

definition GetShaderInfoLog ::
  "Context \<Rightarrow> GLuint \<Rightarrow> GLsizei \<Rightarrow> GLsizei option \<Rightarrow> (nat \<Rightarrow> byte)
     \<Rightarrow> fault + (Context \<times> GLsizei option \<times> (nat \<Rightarrow> byte))" where
  "GetShaderInfoLog c shader bufsize lengthp infolog =
     (if bufsize <s 0 then Inr (RecordError c GL_INVALID_VALUE, lengthp, infolog)
      else (case GetShaderPtr c shader of
              (c1, None) \<Rightarrow> Inr (c1, lengthp, infolog)
            | (c1, Some (p, sh)) \<Rightarrow>
                (case GetInfoLog sh of
                   Some logp \<Rightarrow>
                     (case copy_out logp (GetInfoLogLength sh) bufsize lengthp infolog of
                        Inl f \<Rightarrow> Inl f
                      | Inr (length', infolog') \<Rightarrow> Inr (c1, length', infolog'))
                 | None \<Rightarrow>
                     Inr (c1, (case lengthp of None \<Rightarrow> None | Some old \<Rightarrow> Some 0), infolog))))"

text \<open>\<^verbatim>\<open>Context::GetShaderSource\<close>.\<close>

definition GetShaderSource ::
  "Context \<Rightarrow> GLuint \<Rightarrow> GLsizei \<Rightarrow> GLsizei option \<Rightarrow> (nat \<Rightarrow> byte)
     \<Rightarrow> fault + (Context \<times> GLsizei option \<times> (nat \<Rightarrow> byte))" where
  "GetShaderSource c shader bufsize lengthp source =
     (if bufsize <s 0 then Inr (RecordError c GL_INVALID_VALUE, lengthp, source)
      else (case GetShaderPtr c shader of
              (c1, None) \<Rightarrow> Inr (c1, lengthp, source)
            | (c1, Some (p, sh)) \<Rightarrow>
                (case Shader_GetShaderSource sh of
                   None \<Rightarrow> Inr (c1, lengthp, source)
                 | Some src \<Rightarrow>
                     (case copy_out src (GetShaderSourceLength sh) bufsize lengthp source of
                        Inl f \<Rightarrow> Inl f
                      | Inr (length', source') \<Rightarrow> Inr (c1, length', source')))))"

text \<open>\<^verbatim>\<open>Context::IsShader\<close>: a query of the resource manager; the context is not written.\<close>

definition IsShader :: "Context \<Rightarrow> GLuint \<Rightarrow> Context \<times> bool" where
  "IsShader c shader = (c, IsShadingObject (mResourceManager c) shader SHADER_ID)"

text \<open>
  \<^verbatim>\<open>Context::GetShaderPrecisionFormat\<close>. The integer cases apply
  \<^verbatim>\<open>floor(log2(abs(x)))\<close> to the largest value of a signed integer type; for a positive
  integer this is its bit length less one. \<^verbatim>\<open>short\<close> and \<^verbatim>\<open>int16_t\<close> have 16 bits,
  \<^verbatim>\<open>int32_t\<close> has 32.
\<close>

definition numeric_limits_max :: "nat \<Rightarrow> int" where
  "numeric_limits_max bits = 2 ^ (bits - 1) - 1"

definition floor_log2_abs :: "int \<Rightarrow> GLint" where
  "floor_log2_abs x = word_of_nat (floorlog 2 (nat \<bar>x\<bar>) - 1)"

text \<open>
  The float cases evaluate \<^verbatim>\<open>floor(log2(abs(numeric_limits<float>::max())))\<close> and
  \<^verbatim>\<open>floor(-log2(numeric_limits<float>::epsilon()))\<close> in floating-point arithmetic. Their
  values are parameters of the model: \<open>flt_max_log2\<close> for the first expression and
  \<open>flt_epsilon_neg_log2\<close> for the second.
\<close>

record float_limits =
  flt_max_log2 :: GLint
  flt_epsilon_neg_log2 :: GLint

definition GetShaderPrecisionFormat ::
  "float_limits \<Rightarrow> Context \<Rightarrow> GLenum \<Rightarrow> GLenum \<Rightarrow> GLint \<times> GLint \<Rightarrow> GLint
     \<Rightarrow> Context \<times> (GLint \<times> GLint) \<times> GLint" where
  "GetShaderPrecisionFormat fl c shadertype precisiontype rng precision =
     (case HasShaderCompiler c of
        (c1, False) \<Rightarrow> (c1, rng, precision)
      | (c1, True) \<Rightarrow>
          if shadertype \<noteq> GL_VERTEX_SHADER \<and> shadertype \<noteq> GL_FRAGMENT_SHADER
          then (RecordError c1 GL_INVALID_ENUM, rng, precision)
          else if precisiontype = GL_LOW_FLOAT then
            (c1, (flt_max_log2 fl, flt_max_log2 fl), flt_epsilon_neg_log2 fl)
          else if precisiontype = GL_MEDIUM_FLOAT then
            (c1, (flt_max_log2 fl, flt_max_log2 fl), flt_epsilon_neg_log2 fl)
          else if precisiontype = GL_HIGH_FLOAT then
            (c1, (flt_max_log2 fl, flt_max_log2 fl), flt_epsilon_neg_log2 fl)
          else if precisiontype = GL_LOW_INT then
            (c1, (floor_log2_abs (numeric_limits_max 16),
                  floor_log2_abs (numeric_limits_max 16)), 0)
          else if precisiontype = GL_MEDIUM_INT then
            (c1, (floor_log2_abs (numeric_limits_max 16),
                  floor_log2_abs (numeric_limits_max 16)), 0)
          else if precisiontype = GL_HIGH_INT then
            (c1, (floor_log2_abs (numeric_limits_max 32),
                  floor_log2_abs (numeric_limits_max 32)), 0)
          else (RecordError c1 GL_INVALID_ENUM, rng, precision))"

subsection \<open>The buffer contract in the specification's words\<close>

text \<open>
  The length formula of the specification, over the integers:
  \<open>returnedLen = max(min(bufsize, actualLength) - 1, 0)\<close>.
\<close>

definition returnedLen_spec :: "int \<Rightarrow> int \<Rightarrow> int" where
  "returnedLen_spec bufsize actualLength = max (min bufsize actualLength - 1) 0"

subsection \<open>Observable state of the deletion protocol\<close>

text \<open>
  The state that the idempotence property of the specification compares: the namespace
  contents, the stored shaders with their flags, and the purge list.
\<close>

definition observable_state ::
  "Context \<Rightarrow> (GLuint \<rightharpoonup> ShadingNamespace_t) \<times> (uint32_t \<times> Shader) list \<times> uint32_t set" where
  "observable_state c =
     (mShadingObjectPool (mResourceManager c), mShaderArray (mResourceManager c),
      mPurgeListShader (mResourceManager c))"

subsection \<open>Example state\<close>

text \<open>
  A context with four allocated handles: 1 is a vertex shader with source and info log
  that a program still references, 2 is a program, 3 is a fragment shader with neither
  source nor log and no referrer; handle 4 was allocated and erased again. No compiler
  instance exists yet and no error is pending.
\<close>

definition shader1 :: Shader where
  "shader1 = \<lparr>kind = SHADER_TYPE_VERTEX, sourceText = Some [0x76, 0x6F, 0x69, 0x64],
     compiledArtifact = None, infoLog = Some [0x61, 0x62], isCompiled = False,
     markedForDeletion = False, referrers = 1, compilerRef = None\<rparr>"

definition shader3 :: Shader where
  "shader3 = \<lparr>kind = SHADER_TYPE_FRAGMENT, sourceText = None,
     compiledArtifact = None, infoLog = None, isCompiled = False,
     markedForDeletion = False, referrers = 0, compilerRef = None\<rparr>"

definition rm0 :: ResourceManager where
  "rm0 = \<lparr>mShadingObjectCount = 5,
     mShadingObjectPool = [1 \<mapsto> \<lparr>type = SHADER_ID, arrayIndex = 1\<rparr>,
                           2 \<mapsto> \<lparr>type = SHADER_PROGRAM_ID, arrayIndex = 1\<rparr>,
                           3 \<mapsto> \<lparr>type = SHADER_ID, arrayIndex = 2\<rparr>],
     mShaderArray = [(1, shader1), (2, shader3)],
     mShaderProgramArray = [(1, \<lparr>programCompilerRef = None\<rparr>)],
     mPurgeListShader = {}\<rparr>"

definition ctx0 :: Context where
  "ctx0 = \<lparr>mResourceManager = rm0, mShaderCompiler = None, lastError = GL_NO_ERROR,
     shaderCompilerSupport = True, writeFBOInDrawState = False, flushCount = 0,
     heapNext = 0\<rparr>"

text \<open>The same context on a platform that reports no shader compiler.\<close>

definition ctxNoCompiler :: Context where
  "ctxNoCompiler = ctx0\<lparr>shaderCompilerSupport := False\<rparr>"

text \<open>Float limits with a range of 127 and a precision of 23 bits.\<close>

definition fl0 :: float_limits where
  "fl0 = \<lparr>flt_max_log2 = 127, flt_epsilon_neg_log2 = 23\<rparr>"

lemmas model_defs =
  RecordError_def GetShadingObjectCount_def ShadingObjectExists_def GetShadingObject_def
  GetShader_def

lemmas shader_defs =
  HasSource_def IsCompiled_def GetMarkForDeletion_def SetMarkForDeletion_def
  FreeForDeletion_def GetShaderType_def SetShaderCompiler_def SetProgramShaderCompiler_def
  terminated_def GetInfoLog_def GetInfoLogLength_def Shader_GetShaderSource_def
  GetShaderSourceLength_def

lemmas rm_defs =
  EraseShadingObject_def DeallocateShader_def AddToPurgeList_def StoreShader_def
  IsShadingObject_def

lemmas example_defs = ctx0_def rm0_def shader1_def shader3_def

section \<open>Properties\<close>

subsection \<open>Handle resolution\<close>

text \<open>
  C4. Starting with no error pending, resolving a shader handle leaves
  \<^verbatim>\<open>GL_INVALID_VALUE\<close> in the error slot exactly when the handle is zero, not below the
  object count, or not registered; it leaves \<^verbatim>\<open>GL_INVALID_OPERATION\<close> when the handle is
  registered in range with a kind other than \<^verbatim>\<open>SHADER_ID\<close> (or with storage index 0);
  whenever an error is left the result is the null pointer; and nothing but the error slot
  changes.
\<close>

theorem GetShaderPtr_errors:
  assumes "lastError c = GL_NO_ERROR"
  shows "(lastError (fst (GetShaderPtr c h)) = GL_INVALID_VALUE \<longleftrightarrow>
            h = 0 \<or> mShadingObjectCount (mResourceManager c) \<le> h
              \<or> mShadingObjectPool (mResourceManager c) h = None)
       \<and> (\<forall>e. h \<noteq> 0 \<and> h < mShadingObjectCount (mResourceManager c)
              \<and> mShadingObjectPool (mResourceManager c) h = Some e
              \<and> (type e \<noteq> SHADER_ID \<or> arrayIndex e = 0)
            \<longrightarrow> lastError (fst (GetShaderPtr c h)) = GL_INVALID_OPERATION)
       \<and> (lastError (fst (GetShaderPtr c h)) \<noteq> GL_NO_ERROR \<longrightarrow> snd (GetShaderPtr c h) = None)
       \<and> fst (GetShaderPtr c h) = c\<lparr>lastError := lastError (fst (GetShaderPtr c h))\<rparr>"
  using assms
  by (auto simp: GetShaderPtr_def model_defs GL_defs split: option.splits)

theorem GetShaderPtr_errors_witness:
  "lastError ctx0 = GL_NO_ERROR
   \<and> lastError (fst (GetShaderPtr ctx0 2)) = GL_INVALID_OPERATION
   \<and> snd (GetShaderPtr ctx0 2) = None
   \<and> lastError (fst (GetShaderPtr ctx0 4)) = GL_INVALID_VALUE
   \<and> lastError (fst (GetShaderPtr ctx0 1)) = GL_NO_ERROR
   \<and> snd (GetShaderPtr ctx0 1) = Some (1, shader1)"
proof -
  have h: "lastError ctx0 = GL_NO_ERROR"
    by (simp add: ctx0_def)
  have p2: "mShadingObjectPool (mResourceManager ctx0) 2
              = Some \<lparr>type = SHADER_PROGRAM_ID, arrayIndex = 1\<rparr>"
    by (simp add: example_defs)
  have p4: "mShadingObjectPool (mResourceManager ctx0) 4 = None"
    by (simp add: example_defs)
  have c: "mShadingObjectCount (mResourceManager ctx0) = 5"
    by (simp add: example_defs)
  have a: "lastError (fst (GetShaderPtr ctx0 2)) = GL_INVALID_OPERATION"
    using GetShaderPtr_errors [OF h, of 2] p2 c by simp
  have b: "snd (GetShaderPtr ctx0 2) = None"
    using GetShaderPtr_errors [OF h, of 2] a by (simp add: GL_defs)
  have d: "lastError (fst (GetShaderPtr ctx0 4)) = GL_INVALID_VALUE"
    using GetShaderPtr_errors [OF h, of 4] p4 by simp
  have e: "GetShaderPtr ctx0 1 = (ctx0, Some (1, shader1))"
    by (simp add: GetShaderPtr_def model_defs example_defs word_le_nat_alt)
  show ?thesis using h a b d e by simp
qed

subsection \<open>The string queries\<close>

text \<open>Signed 32-bit arithmetic in the range where nothing wraps.\<close>

lemma sint_std_min:
  "sint (std_min a b) = min (sint a) (sint b)"
  by (auto simp: std_min_def word_sless_alt)

lemma sint_std_max:
  "sint (std_max a b) = max (sint a) (sint b)"
  by (auto simp: std_max_def word_sless_alt)

lemma sint_pred:
  fixes m :: "32 word"
  assumes "0 \<le> sint m"
  shows "sint (m - 1) = sint m - 1"
proof -
  have "sint m < 2 ^ 31" using sint_lt [of m] by simp
  hence "signed_take_bit 31 (sint m - 1) = sint m - 1"
    using assms by (intro signed_take_bit_int_eq_self) auto
  thus ?thesis by (simp add: sint_word_ariths)
qed

lemma sint_returnedLen:
  assumes "0 \<le> sint bufsize" "0 \<le> sint len"
  shows "sint (std_max (std_min bufsize len - 1) 0) = max (min (sint bufsize) (sint len) - 1) 0"
  using assms by (simp add: sint_std_max sint_pred sint_std_min)

lemma sint_word_of_nat:
  assumes "k < 2 ^ 31"
  shows "sint (word_of_nat k :: 32 word) = int k"
proof -
  have "signed_take_bit 31 (int k) = int k"
    using assms by (intro signed_take_bit_int_eq_self) auto
  thus ?thesis by (simp add: signed_of_nat)
qed

lemma unat_of_sint:
  fixes w :: "32 word"
  assumes "0 \<le> sint w"
  shows "unat w = nat (sint w)"
proof -
  have "uint w = take_bit 32 (sint w)" by (simp add: uint_sint)
  also have "\<dots> = sint w"
    using assms sint_lt [of w] by (intro take_bit_int_eq_self) auto
  finally have "uint w = sint w" .
  then show ?thesis by (metis nat_uint_eq)
qed

lemma copy_out_terminated:
  assumes b: "0 \<le> sint bufsize" and l: "length t + 1 < 2 ^ 31"
  defines "n \<equiv> nat (returnedLen_spec (sint bufsize) (int (length t + 1)))"
  shows "copy_out (terminated t) (word_of_nat (length (terminated t))) bufsize lengthp dst =
           Inr (map_option (\<lambda>old. word_of_nat n) lengthp,
                \<lambda>i. if i < n then t ! i else if i = n then 0 else dst i)"
proof -
  let ?len = "word_of_nat (length (terminated t)) :: 32 word"
  let ?r = "std_max (std_min bufsize ?len - 1) 0"
  have sl: "sint ?len = int (length t + 1)"
    using sint_word_of_nat [OF l] by (simp add: terminated_def)
  have sr: "sint ?r = returnedLen_spec (sint bufsize) (int (length t + 1))"
    using sint_returnedLen [OF b, of ?len] sl by (simp add: returnedLen_spec_def)
  have r0: "0 \<le> sint ?r" by (simp add: sr returnedLen_spec_def)
  have un: "unat ?r = n" using unat_of_sint [OF r0] sr by (simp add: n_def)
  have "(word_of_nat (unat ?r) :: 32 word) = ?r" by simp
  hence rw: "?r = word_of_nat n" using un by simp
  have nle: "n \<le> length t" by (simp add: n_def returnedLen_spec_def)
  have z: "?r = 0 \<longleftrightarrow> n = 0" using un by (metis unat_eq_0)
  show ?thesis
  proof (cases "n = 0")
    case True
    then show ?thesis
      using z rw by (auto simp: copy_out_def Let_def memcpy_def terminated_def fun_eq_iff split: option.splits)
  next
    case False
    then show ?thesis
      using z rw un nle by (auto simp: copy_out_def Let_def memcpy_def terminated_def fun_eq_iff nth_append split: option.splits)
  qed
qed


lemma GetShaderPtr_Some:
  assumes "snd (GetShaderPtr c shader) = Some q"
  shows "GetShaderPtr c shader = (c, Some q)"
  using assms by (auto simp: GetShaderPtr_def split: if_splits option.splits)

text \<open>
  C1. For a handle that resolves to a shader and a non-negative \<open>bufsize\<close>: if the info
  log (for \<^verbatim>\<open>GetShaderInfoLog\<close>) or the source text (for \<^verbatim>\<open>GetShaderSource\<close>) exists and
  its terminated length fits a \<^verbatim>\<open>GLint\<close>, the call returns without fault or error, with
  \<open>returnedLen = max(min(bufsize, actualLength) - 1, 0)\<close>: the first \<open>returnedLen\<close>
  bytes of the destination are the first \<open>returnedLen\<close> bytes of the text, the byte right
  after them is the terminator 0, every other byte of the destination keeps its content,
  and the length output, when supplied, holds \<open>returnedLen\<close>.
\<close>

theorem string_query_contract:
  assumes valid: "snd (GetShaderPtr c shader) = Some (p, sh)"
      and nonneg: "0 \<le> sint bufsize"
  shows "(\<forall>t. infoLog sh = Some t \<and> length t + 1 < 2 ^ 31 \<longrightarrow>
            (\<exists>returnedLen.
               sint returnedLen = returnedLen_spec (sint bufsize) (int (length t + 1)) \<and>
               GetShaderInfoLog c shader bufsize lengthp dst =
                 Inr (c, map_option (\<lambda>old. returnedLen) lengthp,
                      \<lambda>i. if i < unat returnedLen then t ! i
                          else if i = unat returnedLen then 0 else dst i)))
       \<and> (\<forall>t. sourceText sh = Some t \<and> length t + 1 < 2 ^ 31 \<longrightarrow>
            (\<exists>returnedLen.
               sint returnedLen = returnedLen_spec (sint bufsize) (int (length t + 1)) \<and>
               GetShaderSource c shader bufsize lengthp dst =
                 Inr (c, map_option (\<lambda>old. returnedLen) lengthp,
                      \<lambda>i. if i < unat returnedLen then t ! i
                          else if i = unat returnedLen then 0 else dst i)))"
proof -
  have ptr: "GetShaderPtr c shader = (c, Some (p, sh))"
    using valid by (rule GetShaderPtr_Some)
  have nb: "\<not> bufsize <s 0"
    using nonneg by (simp add: word_sless_alt)
  have key: "\<exists>returnedLen.
               sint returnedLen = returnedLen_spec (sint bufsize) (int (length t + 1)) \<and>
               copy_out (terminated t) (word_of_nat (length (terminated t))) bufsize lengthp dst =
                 Inr (map_option (\<lambda>old. returnedLen) lengthp,
                      \<lambda>i. if i < unat returnedLen then t ! i
                          else if i = unat returnedLen then 0 else dst i)"
    if l: "length t + 1 < 2 ^ 31" for t
  proof -
    let ?n = "nat (returnedLen_spec (sint bufsize) (int (length t + 1)))"
    let ?r = "word_of_nat ?n :: 32 word"
    have nle: "?n \<le> length t" by (simp add: returnedLen_spec_def)
    hence n31: "?n < 2 ^ 31" using l by simp
    have s: "sint ?r = returnedLen_spec (sint bufsize) (int (length t + 1))"
      using sint_word_of_nat [OF n31] by (simp add: returnedLen_spec_def)
    have "0 \<le> returnedLen_spec (sint bufsize) (int (length t + 1))"
      by (simp add: returnedLen_spec_def)
    hence r0: "0 \<le> sint ?r" by (simp only: s)
    have u: "unat ?r = ?n" by (simp only: unat_of_sint [OF r0] s)
    show ?thesis
      by (intro exI [of _ ?r] conjI, rule s, simp only: u copy_out_terminated [OF nonneg l])
  qed
  show ?thesis
  proof (intro conjI allI impI)
    fix t assume a: "infoLog sh = Some t \<and> length t + 1 < 2 ^ 31"
    from key [of t] a obtain r where
      r: "sint r = returnedLen_spec (sint bufsize) (int (length t + 1))"
         "copy_out (terminated t) (word_of_nat (length (terminated t))) bufsize lengthp dst =
            Inr (map_option (\<lambda>old. r) lengthp,
                 \<lambda>i. if i < unat r then t ! i else if i = unat r then 0 else dst i)"
      by blast
    show "\<exists>returnedLen.
            sint returnedLen = returnedLen_spec (sint bufsize) (int (length t + 1)) \<and>
            GetShaderInfoLog c shader bufsize lengthp dst =
              Inr (c, map_option (\<lambda>old. returnedLen) lengthp,
                   \<lambda>i. if i < unat returnedLen then t ! i
                       else if i = unat returnedLen then 0 else dst i)"
      using r a ptr nb
      by (intro exI [of _ r]) (simp add: GetShaderInfoLog_def GetInfoLog_def GetInfoLogLength_def)
  next
    fix t assume a: "sourceText sh = Some t \<and> length t + 1 < 2 ^ 31"
    from key [of t] a obtain r where
      r: "sint r = returnedLen_spec (sint bufsize) (int (length t + 1))"
         "copy_out (terminated t) (word_of_nat (length (terminated t))) bufsize lengthp dst =
            Inr (map_option (\<lambda>old. r) lengthp,
                 \<lambda>i. if i < unat r then t ! i else if i = unat r then 0 else dst i)"
      by blast
    show "\<exists>returnedLen.
            sint returnedLen = returnedLen_spec (sint bufsize) (int (length t + 1)) \<and>
            GetShaderSource c shader bufsize lengthp dst =
              Inr (c, map_option (\<lambda>old. returnedLen) lengthp,
                   \<lambda>i. if i < unat returnedLen then t ! i
                       else if i = unat returnedLen then 0 else dst i)"
      using r a ptr nb
      by (intro exI [of _ r])
         (simp add: GetShaderSource_def Shader_GetShaderSource_def GetShaderSourceLength_def)
  qed
qed

theorem string_query_contract_witness:
  "snd (GetShaderPtr ctx0 1) = Some (1, shader1) \<and> 0 \<le> sint (2 :: 32 word)
   \<and> infoLog shader1 = Some [0x61, 0x62] \<and> sourceText shader1 = Some [0x76, 0x6F, 0x69, 0x64]
   \<and> length [0x61, 0x62 :: byte] + 1 < 2 ^ 31
   \<and> length [0x76, 0x6F, 0x69, 0x64 :: byte] + 1 < 2 ^ 31
   \<and> (\<exists>m. GetShaderInfoLog ctx0 1 2 (Some 7) (\<lambda>i. 0xFF) = Inr (ctx0, Some 1, m)
          \<and> m 0 = 0x61 \<and> m 1 = 0 \<and> m 2 = 0xFF)
   \<and> (\<exists>m. GetShaderSource ctx0 1 2 None (\<lambda>i. 0xFF) = Inr (ctx0, None, m)
          \<and> m 0 = 0x76 \<and> m 1 = 0 \<and> m 2 = 0xFF)"
proof -
  have v: "snd (GetShaderPtr ctx0 1) = Some (1, shader1)"
    by (simp add: GetShaderPtr_def model_defs example_defs word_le_nat_alt)
  have n: "0 \<le> sint (2 :: 32 word)" by simp
  have i: "infoLog shader1 = Some [0x61, 0x62]" by (simp add: shader1_def)
  have s: "sourceText shader1 = Some [0x76, 0x6F, 0x69, 0x64]" by (simp add: shader1_def)
  have one: "r = 1" if "sint r = 1" for r :: "32 word"
    using that signed_word_eqI [of r 1] by simp
  have u1: "unat (1 :: 32 word) = 1" by simp
  have li: "length [0x61, 0x62 :: byte] + 1 < 2 ^ 31" by simp
  have ls: "length [0x76, 0x6F, 0x69, 0x64 :: byte] + 1 < 2 ^ 31" by simp
  from string_query_contract [OF v n, of "Some 7" "\<lambda>i. 0xFF"] i li
  obtain r where r: "sint r = returnedLen_spec (sint (2 :: 32 word)) (int (length [0x61, 0x62 :: byte] + 1))"
    and gi: "GetShaderInfoLog ctx0 1 2 (Some 7) (\<lambda>i. 0xFF) =
      Inr (ctx0, map_option (\<lambda>old. r) (Some (7 :: 32 word)),
           \<lambda>i. if i < unat r then [0x61, 0x62] ! i else if i = unat r then 0 else 0xFF)"
    by blast
  have "sint r = 1" using r by (simp add: returnedLen_spec_def)
  hence r1: "r = 1" by (rule one)
  have a: "\<exists>m. GetShaderInfoLog ctx0 1 2 (Some 7) (\<lambda>i. 0xFF) = Inr (ctx0, Some 1, m)
          \<and> m 0 = 0x61 \<and> m 1 = 0 \<and> m 2 = 0xFF"
    unfolding gi r1 u1 by simp
  from string_query_contract [OF v n, of None "\<lambda>i. 0xFF"] s ls
  obtain q where q: "sint q = returnedLen_spec (sint (2 :: 32 word)) (int (length [0x76, 0x6F, 0x69, 0x64 :: byte] + 1))"
    and gs: "GetShaderSource ctx0 1 2 None (\<lambda>i. 0xFF) =
      Inr (ctx0, map_option (\<lambda>old. q) (None :: 32 word option),
           \<lambda>i. if i < unat q then [0x76, 0x6F, 0x69, 0x64] ! i else if i = unat q then 0 else 0xFF)"
    by blast
  have "sint q = 1" using q by (simp add: returnedLen_spec_def)
  hence q1: "q = 1" by (rule one)
  have b: "\<exists>m. GetShaderSource ctx0 1 2 None (\<lambda>i. 0xFF) = Inr (ctx0, None, m)
          \<and> m 0 = 0x76 \<and> m 1 = 0 \<and> m 2 = 0xFF"
    unfolding gs q1 u1 by simp
  show ?thesis using v n i s li ls a b by simp
qed

text \<open>
  For \<open>bufsize\<close> of at least 1 the copy stays inside the first \<open>bufsize\<close> bytes of the
  destination and leaves a terminator there.
\<close>

lemma copy_out_within_bufsize:
  assumes b: "1 \<le> sint bufsize" and l: "length t + 1 < 2 ^ 31"
  shows "\<exists>len' m. copy_out (terminated t) (word_of_nat (length (terminated t))) bufsize lengthp dst
                    = Inr (len', m)
           \<and> (\<forall>i. unat bufsize \<le> i \<longrightarrow> m i = dst i)
           \<and> (\<exists>j. j < unat bufsize \<and> m j = 0)"
proof -
  let ?n = "nat (returnedLen_spec (sint bufsize) (int (length t + 1)))"
  have b0: "0 \<le> sint bufsize" using b by simp
  have u: "unat bufsize = nat (sint bufsize)" using b0 by (rule unat_of_sint)
  have lt: "?n < unat bufsize"
    using b by (simp add: u returnedLen_spec_def)
  let ?m = "\<lambda>i. if i < ?n then t ! i else if i = ?n then 0 else dst i"
  have far: "\<forall>i. unat bufsize \<le> i \<longrightarrow> ?m i = dst i"
    using lt by auto
  have tm: "\<exists>j. j < unat bufsize \<and> ?m j = 0"
    using lt by (intro exI [of _ ?n]) simp
  from copy_out_terminated [OF b0 l, of lengthp dst] far tm
  show ?thesis by blast
qed

text \<open>
  C2. The buffer contract at \<open>bufsize = 0\<close>. Handle 1 of the example context has the info
  log \<^verbatim>\<open>ab\<close> and the source \<^verbatim>\<open>void\<close>. With \<open>bufsize = 0\<close> both queries compute
  \<open>returnedLen = 0\<close>, take the branch that copies one byte and store the terminator at
  offset 0 of the destination: a byte at an offset that is not below \<open>bufsize\<close> is
  overwritten.
\<close>

theorem zero_bufsize_writes_terminator:
  "GetShaderInfoLog ctx0 1 0 None (\<lambda>i. 0x41) = Inr (ctx0, None, (\<lambda>i. 0x41)(0 := 0))
   \<and> GetShaderSource ctx0 1 0 None (\<lambda>i. 0x41) = Inr (ctx0, None, (\<lambda>i. 0x41)(0 := 0))"
  by (simp add: GetShaderInfoLog_def GetShaderSource_def GetShaderPtr_def copy_out_def
      memcpy_def std_min_def std_max_def model_defs shader_defs example_defs word_le_nat_alt
      word_sless_alt fun_eq_iff)

text \<open>
  C3. The missing string. Handle 3 of the example context has neither source nor info
  log. \<^verbatim>\<open>GetShaderSource\<close> returns at its null check and leaves the length output at its
  old content 77, where \<^verbatim>\<open>GetShaderInfoLog\<close> stores 0 into it; neither writes the
  destination.
\<close>

theorem missing_source_leaves_length:
  "GetShaderSource ctx0 3 8 (Some 77) (\<lambda>i. 0x41) = Inr (ctx0, Some 77, \<lambda>i. 0x41)
   \<and> GetShaderInfoLog ctx0 3 8 (Some 77) (\<lambda>i. 0x41) = Inr (ctx0, Some 0, \<lambda>i. 0x41)"
  by (simp add: GetShaderInfoLog_def GetShaderSource_def GetShaderPtr_def
      model_defs shader_defs example_defs word_le_nat_alt word_sless_alt)

subsection \<open>Validation before mutation\<close>

text \<open>The capability check itself writes nothing but the error slot.\<close>

lemma HasShaderCompiler_error_only:
  "\<exists>e. fst (HasShaderCompiler c) = c\<lparr>lastError := e\<rparr>"
proof (cases "shaderCompilerSupport c")
  case True
  then have "fst (HasShaderCompiler c) = c\<lparr>lastError := lastError c\<rparr>"
    by (simp add: HasShaderCompiler_def)
  then show ?thesis by (rule exI)
next
  case False
  then have "fst (HasShaderCompiler c) = c\<lparr>lastError := GL_INVALID_OPERATION\<rparr>"
    by (simp add: HasShaderCompiler_def RecordError_def)
  then show ?thesis by (rule exI)
qed

text \<open>
  \<^verbatim>\<open>GetShaderPrecisionFormat\<close> makes the check before anything else: without the
  capability it records the error and returns its outputs as it received them.
\<close>

lemma GetShaderPrecisionFormat_gate:
  assumes "\<not> shaderCompilerSupport c"
  shows "GetShaderPrecisionFormat fl c shadertype precisiontype rng precision =
           (RecordError c GL_INVALID_OPERATION, rng, precision)"
  using assms by (simp add: GetShaderPrecisionFormat_def HasShaderCompiler_def)

text \<open>
  C8. \<^verbatim>\<open>GetShaderiv\<close> checks the compiler capability after its switch. On a context that
  reports no shader compiler and has no error pending, the query of \<^verbatim>\<open>GL_SHADER_TYPE\<close>
  for the valid handle 1 writes \<^verbatim>\<open>GL_VERTEX_SHADER\<close> over the old content 0 of its output
  and then records \<^verbatim>\<open>GL_INVALID_OPERATION\<close>.
\<close>

theorem GetShaderiv_writes_and_records:
  "GetShaderiv ctxNoCompiler 1 GL_SHADER_TYPE 0 =
     (ctxNoCompiler\<lparr>lastError := GL_INVALID_OPERATION\<rparr>, GL_VERTEX_SHADER)
   \<and> GL_VERTEX_SHADER \<noteq> 0 \<and> lastError ctxNoCompiler = GL_NO_ERROR"
  by (simp add: GetShaderiv_def HasShaderCompiler_def GetShaderPtr_def
      model_defs shader_defs example_defs ctxNoCompiler_def word_le_nat_alt GL_defs)

subsection \<open>Deletion and the purge list\<close>

text \<open>What a resolved handle says about the resource manager, and conversely.\<close>

lemma GetShaderPtr_SomeD:
  assumes "snd (GetShaderPtr c h) = Some (p, sh)"
  shows "h \<noteq> 0" "h < mShadingObjectCount (mResourceManager c)"
    "mShadingObjectPool (mResourceManager c) h = Some \<lparr>type = SHADER_ID, arrayIndex = p\<rparr>"
    "p \<noteq> 0" "map_of (mShaderArray (mResourceManager c)) p = Some sh"
  using assms
  by (auto simp: GetShaderPtr_def model_defs split: if_splits option.splits)

lemma GetShaderPtr_SomeI:
  assumes "h \<noteq> 0" "h < mShadingObjectCount (mResourceManager c)"
    "mShadingObjectPool (mResourceManager c) h = Some \<lparr>type = SHADER_ID, arrayIndex = p\<rparr>"
    "p \<noteq> 0" "map_of (mShaderArray (mResourceManager c)) p = Some sh"
  shows "GetShaderPtr c h = (c, Some (p, sh))"
  using assms by (auto simp: GetShaderPtr_def model_defs)

lemma GetShaderPtr_NoneD:
  assumes "snd (GetShaderPtr c h) = None"
  shows "\<exists>e. fst (GetShaderPtr c h) = c\<lparr>lastError := e\<rparr>"
proof (cases "fst (GetShaderPtr c h) = c")
  case True
  then have "fst (GetShaderPtr c h) = c\<lparr>lastError := lastError c\<rparr>" by simp
  then show ?thesis by blast
next
  case False
  then show ?thesis
    by (auto simp: GetShaderPtr_def model_defs split: if_splits option.splits)
qed

lemma GetShaderPtr_lastError:
  "snd (GetShaderPtr (c\<lparr>lastError := e\<rparr>) h) = snd (GetShaderPtr c h)"
  by (auto simp: GetShaderPtr_def model_defs split: option.splits)

lemma DeleteShader_invalid:
  assumes "h \<noteq> 0" "snd (GetShaderPtr c h) = None"
  shows "DeleteShader c h = fst (GetShaderPtr c h)"
  using assms by (cases "GetShaderPtr c h") (simp add: DeleteShader_def)

lemma DeleteShader_deferred_eq:
  assumes v: "snd (GetShaderPtr c h) = Some (p, sh)" and r: "referrers sh \<noteq> 0"
  shows "DeleteShader c h =
           c\<lparr>mResourceManager := (mResourceManager c)
               \<lparr>mShaderArray := AList.update p (sh\<lparr>markedForDeletion := True\<rparr>)
                                   (mShaderArray (mResourceManager c)),
                mPurgeListShader := insert p (mPurgeListShader (mResourceManager c))\<rparr>\<rparr>"
proof -
  have "GetShaderPtr c h = (c, Some (p, sh))"
    using v by (rule GetShaderPtr_Some)
  then show ?thesis
    using GetShaderPtr_SomeD(1) [OF v] r
    by (simp add: DeleteShader_def Let_def shader_defs rm_defs)
qed

lemma DeleteShader_freed_eq:
  assumes v: "snd (GetShaderPtr c h) = Some (p, sh)" and r: "referrers sh = 0"
  shows "DeleteShader c h =
           c\<lparr>mResourceManager := (mResourceManager c)
               \<lparr>mShadingObjectPool := (mShadingObjectPool (mResourceManager c))(h := None),
                mShaderArray := AList.delete p (mShaderArray (mResourceManager c))\<rparr>,
             flushCount := (if writeFBOInDrawState c then Suc (flushCount c) else flushCount c)\<rparr>"
proof -
  have "GetShaderPtr c h = (c, Some (p, sh))"
    using v by (rule GetShaderPtr_Some)
  then show ?thesis
    using GetShaderPtr_SomeD(1) [OF v] r
    by (simp add: DeleteShader_def Let_def shader_defs rm_defs Flush_def delete_update_same)
qed


lemma map_of_Some_key:
  assumes "map_of al k = Some v"
  shows "k \<in> set (map fst al)"
  using assms by (metis map_of_eq_None_iff option.distinct(1) set_map)

text \<open>
  C5. When the handle resolves to a shader that a program still references, \<^verbatim>\<open>DeleteShader\<close>
  puts the shader into the purge list, leaves the namespace as it was, and the handle
  still resolves, to the same shader now marked for deletion. The namespace or the set of
  stored shaders changes only when the handle resolves to a shader that is free for
  deletion once marked; and in that case the namespace entry is erased and the storage
  released.
\<close>

theorem DeleteShader_referenced_is_purged:
  "(\<forall>p sh. snd (GetShaderPtr c h) = Some (p, sh) \<and> referrers sh \<noteq> 0 \<longrightarrow>
      p \<in> mPurgeListShader (mResourceManager (DeleteShader c h))
      \<and> mShadingObjectPool (mResourceManager (DeleteShader c h))
          = mShadingObjectPool (mResourceManager c)
      \<and> snd (GetShaderPtr (DeleteShader c h) h) = Some (p, sh\<lparr>markedForDeletion := True\<rparr>))
   \<and> (mShadingObjectPool (mResourceManager (DeleteShader c h))
          \<noteq> mShadingObjectPool (mResourceManager c)
        \<or> map fst (mShaderArray (mResourceManager (DeleteShader c h)))
          \<noteq> map fst (mShaderArray (mResourceManager c))
      \<longrightarrow> (\<exists>p sh. snd (GetShaderPtr c h) = Some (p, sh)
                  \<and> FreeForDeletion (SetMarkForDeletion sh True)))
   \<and> (\<forall>p sh. snd (GetShaderPtr c h) = Some (p, sh) \<and> referrers sh = 0 \<longrightarrow>
      mShadingObjectPool (mResourceManager (DeleteShader c h)) h = None
      \<and> map_of (mShaderArray (mResourceManager (DeleteShader c h))) p = None)"
proof (intro conjI allI impI)
  fix p sh
  assume a: "snd (GetShaderPtr c h) = Some (p, sh) \<and> referrers sh \<noteq> 0"
  then have v: "snd (GetShaderPtr c h) = Some (p, sh)" and r: "referrers sh \<noteq> 0"
    by simp_all
  note eq = DeleteShader_deferred_eq [OF v r]
  show "p \<in> mPurgeListShader (mResourceManager (DeleteShader c h))"
    by (simp add: eq)
  show "mShadingObjectPool (mResourceManager (DeleteShader c h))
          = mShadingObjectPool (mResourceManager c)"
    by (simp add: eq)
  have "GetShaderPtr (DeleteShader c h) h
          = (DeleteShader c h, Some (p, sh\<lparr>markedForDeletion := True\<rparr>))"
    using GetShaderPtr_SomeD [OF v]
    by (intro GetShaderPtr_SomeI) (simp_all add: eq update_conv')
  then show "snd (GetShaderPtr (DeleteShader c h) h) = Some (p, sh\<lparr>markedForDeletion := True\<rparr>)"
    by simp
next
  assume ch: "mShadingObjectPool (mResourceManager (DeleteShader c h))
          \<noteq> mShadingObjectPool (mResourceManager c)
        \<or> map fst (mShaderArray (mResourceManager (DeleteShader c h)))
          \<noteq> map fst (mShaderArray (mResourceManager c))"
  show "\<exists>p sh. snd (GetShaderPtr c h) = Some (p, sh)
                  \<and> FreeForDeletion (SetMarkForDeletion sh True)"
  proof (cases "snd (GetShaderPtr c h)")
    case None
    have "mResourceManager (DeleteShader c h) = mResourceManager c"
    proof (cases "h = 0")
      case True
      then show ?thesis by (simp add: DeleteShader_def)
    next
      case False
      from GetShaderPtr_NoneD [OF None] obtain e
        where "fst (GetShaderPtr c h) = c\<lparr>lastError := e\<rparr>" by blast
      then show ?thesis
        using DeleteShader_invalid [OF False None] by simp
    qed
    with ch show ?thesis by simp
  next
    case (Some q)
    obtain p sh where q: "q = (p, sh)" by (cases q)
    have v: "snd (GetShaderPtr c h) = Some (p, sh)" using Some q by simp
    show ?thesis
    proof (cases "referrers sh = 0")
      case True
      then show ?thesis using v by (auto simp: shader_defs)
    next
      case False
      have "p \<in> set (map fst (mShaderArray (mResourceManager c)))"
        using GetShaderPtr_SomeD(5) [OF v] by (rule map_of_Some_key)
      then have "map fst (mShaderArray (mResourceManager (DeleteShader c h)))
                   = map fst (mShaderArray (mResourceManager c))"
        by (simp add: DeleteShader_deferred_eq [OF v False] update_keys)
      moreover have "mShadingObjectPool (mResourceManager (DeleteShader c h))
          = mShadingObjectPool (mResourceManager c)"
        by (simp add: DeleteShader_deferred_eq [OF v False])
      ultimately show ?thesis using ch by simp
    qed
  qed
next
  fix p sh
  assume a: "snd (GetShaderPtr c h) = Some (p, sh) \<and> referrers sh = 0"
  then have v: "snd (GetShaderPtr c h) = Some (p, sh)" and r: "referrers sh = 0"
    by simp_all
  note eq = DeleteShader_freed_eq [OF v r]
  show "mShadingObjectPool (mResourceManager (DeleteShader c h)) h = None"
    by (simp add: eq)
  show "map_of (mShaderArray (mResourceManager (DeleteShader c h))) p = None"
    by (simp add: eq delete_conv')
qed

theorem DeleteShader_referenced_is_purged_witness:
  "snd (GetShaderPtr ctx0 1) = Some (1, shader1) \<and> referrers shader1 \<noteq> 0
   \<and> 1 \<in> mPurgeListShader (mResourceManager (DeleteShader ctx0 1))
   \<and> mShadingObjectPool (mResourceManager (DeleteShader ctx0 1)) 1
        = Some \<lparr>type = SHADER_ID, arrayIndex = 1\<rparr>
   \<and> snd (GetShaderPtr (DeleteShader ctx0 1) 1) = Some (1, shader1\<lparr>markedForDeletion := True\<rparr>)
   \<and> snd (GetShaderPtr ctx0 3) = Some (2, shader3) \<and> referrers shader3 = 0
   \<and> mShadingObjectPool (mResourceManager (DeleteShader ctx0 3)) 3 = None
   \<and> map_of (mShaderArray (mResourceManager (DeleteShader ctx0 3))) 2 = None
   \<and> mShadingObjectPool (mResourceManager (DeleteShader ctx0 3))
        \<noteq> mShadingObjectPool (mResourceManager ctx0)
   \<and> FreeForDeletion (SetMarkForDeletion shader3 True)"
proof -
  have v1: "snd (GetShaderPtr ctx0 1) = Some (1, shader1)"
    by (simp add: GetShaderPtr_def model_defs example_defs word_le_nat_alt)
  have r1: "referrers shader1 \<noteq> 0" by (simp add: shader1_def)
  have v3: "snd (GetShaderPtr ctx0 3) = Some (2, shader3)"
    by (simp add: GetShaderPtr_def model_defs example_defs word_le_nat_alt)
  have r3: "referrers shader3 = 0" by (simp add: shader3_def)
  have p1: "mShadingObjectPool (mResourceManager ctx0) 1 = Some \<lparr>type = SHADER_ID, arrayIndex = 1\<rparr>"
    by (simp add: example_defs)
  have p3: "mShadingObjectPool (mResourceManager ctx0) 3 \<noteq> None"
    by (simp add: example_defs)
  note th1 = DeleteShader_referenced_is_purged [of ctx0 1]
  note th3 = DeleteShader_referenced_is_purged [of ctx0 3]
  have a: "1 \<in> mPurgeListShader (mResourceManager (DeleteShader ctx0 1))"
    and b: "mShadingObjectPool (mResourceManager (DeleteShader ctx0 1))
              = mShadingObjectPool (mResourceManager ctx0)"
    and c: "snd (GetShaderPtr (DeleteShader ctx0 1) 1) = Some (1, shader1\<lparr>markedForDeletion := True\<rparr>)"
    using th1 v1 r1 by blast+
  have d: "mShadingObjectPool (mResourceManager (DeleteShader ctx0 3)) 3 = None"
    and e: "map_of (mShaderArray (mResourceManager (DeleteShader ctx0 3))) 2 = None"
    using th3 v3 r3 by blast+
  have f: "mShadingObjectPool (mResourceManager (DeleteShader ctx0 3))
        \<noteq> mShadingObjectPool (mResourceManager ctx0)"
    using d p3 by metis
  from th3 f obtain p sh where "snd (GetShaderPtr ctx0 3) = Some (p, sh)"
    and "FreeForDeletion (SetMarkForDeletion sh True)" by blast
  with v3 have g: "FreeForDeletion (SetMarkForDeletion shader3 True)" by simp
  show ?thesis using v1 r1 a b p1 c v3 r3 d e f g by simp
qed

text \<open>
  C6. Deleting the same handle a second time leaves the namespace, the stored shaders and
  the purge list as the first deletion left them; the two states differ at most in the
  error slot. Deleting handle 0 changes nothing and records nothing.
\<close>

theorem DeleteShader_idempotent:
  "observable_state (DeleteShader (DeleteShader c h) h) = observable_state (DeleteShader c h)
   \<and> (\<exists>e. DeleteShader (DeleteShader c h) h = (DeleteShader c h)\<lparr>lastError := e\<rparr>)
   \<and> DeleteShader c 0 = c"
proof -
  have zero: "DeleteShader c 0 = c"
    by (simp add: DeleteShader_def)
  have main: "\<exists>e. DeleteShader (DeleteShader c h) h = (DeleteShader c h)\<lparr>lastError := e\<rparr>"
  proof (cases "h = 0")
    case True
    have "c = c\<lparr>lastError := lastError c\<rparr>" by simp
    then have "\<exists>e. c = c\<lparr>lastError := e\<rparr>" by (rule exI)
    then show ?thesis using True by (simp add: DeleteShader_def)
  next
    case nz: False
    show ?thesis
    proof (cases "snd (GetShaderPtr c h)")
      case None
      from GetShaderPtr_NoneD [OF None] obtain e
        where e: "fst (GetShaderPtr c h) = c\<lparr>lastError := e\<rparr>" by blast
      have d1: "DeleteShader c h = c\<lparr>lastError := e\<rparr>"
        using DeleteShader_invalid [OF nz None] e by simp
      have n2: "snd (GetShaderPtr (c\<lparr>lastError := e\<rparr>) h) = None"
        using None by (simp add: GetShaderPtr_lastError)
      from GetShaderPtr_NoneD [OF n2] obtain e'
        where "fst (GetShaderPtr (c\<lparr>lastError := e\<rparr>) h) = c\<lparr>lastError := e\<rparr>\<lparr>lastError := e'\<rparr>"
        by blast
      then show ?thesis
        using DeleteShader_invalid [OF nz n2] d1 by auto
    next
      case (Some q)
      obtain p sh where q: "q = (p, sh)" by (cases q)
      have v: "snd (GetShaderPtr c h) = Some (p, sh)" using Some q by simp
      show ?thesis
      proof (cases "referrers sh = 0")
        case True
        note eq = DeleteShader_freed_eq [OF v True]
        have n2: "snd (GetShaderPtr (DeleteShader c h) h) = None"
          by (simp add: eq GetShaderPtr_def model_defs)
        from GetShaderPtr_NoneD [OF n2] obtain e'
          where "fst (GetShaderPtr (DeleteShader c h) h) = (DeleteShader c h)\<lparr>lastError := e'\<rparr>"
          by blast
        then show ?thesis
          using DeleteShader_invalid [OF nz n2] by auto
      next
        case False
        note eq = DeleteShader_deferred_eq [OF v False]
        let ?sh' = "sh\<lparr>markedForDeletion := True\<rparr>"
        have "GetShaderPtr (DeleteShader c h) h = (DeleteShader c h, Some (p, ?sh'))"
          using GetShaderPtr_SomeD [OF v]
          by (intro GetShaderPtr_SomeI) (simp_all add: eq update_conv')
        then have v2: "snd (GetShaderPtr (DeleteShader c h) h) = Some (p, ?sh')"
          by simp
        have r2: "referrers ?sh' \<noteq> 0" using False by simp
        have "DeleteShader (DeleteShader c h) h = DeleteShader c h"
          by (subst DeleteShader_deferred_eq [OF v2 r2]) (simp add: eq)
        then have "DeleteShader (DeleteShader c h) h
                     = (DeleteShader c h)\<lparr>lastError := lastError (DeleteShader c h)\<rparr>"
          by simp
        then show ?thesis by blast
      qed
    qed
  qed
  from main obtain e
    where "DeleteShader (DeleteShader c h) h = (DeleteShader c h)\<lparr>lastError := e\<rparr>"
    by blast
  then have "observable_state (DeleteShader (DeleteShader c h) h)
               = observable_state (DeleteShader c h)"
    by (simp add: observable_state_def)
  with main zero show ?thesis by simp
qed

theorem DeleteShader_idempotent_witness:
  "observable_state (DeleteShader (DeleteShader ctx0 3) 3) = observable_state (DeleteShader ctx0 3)
   \<and> lastError (DeleteShader ctx0 3) = GL_NO_ERROR
   \<and> lastError (DeleteShader (DeleteShader ctx0 3) 3) = GL_INVALID_VALUE
   \<and> observable_state (DeleteShader (DeleteShader ctx0 1) 1) = observable_state (DeleteShader ctx0 1)
   \<and> mPurgeListShader (mResourceManager (DeleteShader ctx0 1)) = {1}
   \<and> DeleteShader ctx0 0 = ctx0"
proof -
  have v3: "snd (GetShaderPtr ctx0 3) = Some (2, shader3)"
    by (simp add: GetShaderPtr_def model_defs example_defs word_le_nat_alt)
  have r3: "referrers shader3 = 0" by (simp add: shader3_def)
  have v1: "snd (GetShaderPtr ctx0 1) = Some (1, shader1)"
    by (simp add: GetShaderPtr_def model_defs example_defs word_le_nat_alt)
  have r1: "referrers shader1 \<noteq> 0" by (simp add: shader1_def)
  have a: "lastError (DeleteShader ctx0 3) = GL_NO_ERROR"
    by (simp add: DeleteShader_freed_eq [OF v3 r3]) (simp add: ctx0_def)
  have n: "snd (GetShaderPtr (DeleteShader ctx0 3) 3) = None"
    by (simp add: DeleteShader_freed_eq [OF v3 r3] GetShaderPtr_def model_defs)
  have b: "lastError (DeleteShader (DeleteShader ctx0 3) 3) = GL_INVALID_VALUE"
    by (subst DeleteShader_invalid [OF _ n])
       (simp_all add: DeleteShader_freed_eq [OF v3 r3] GetShaderPtr_def model_defs)
  have p: "mPurgeListShader (mResourceManager (DeleteShader ctx0 1)) = {1}"
    by (simp add: DeleteShader_deferred_eq [OF v1 r1]) (simp add: example_defs)
  show ?thesis
    using DeleteShader_idempotent [of ctx0 3] DeleteShader_idempotent [of ctx0 1] a b p
    by simp
qed

subsection \<open>Compiler creation\<close>

lemma rebind_shaders_keys: "map fst (rebind_shaders cp xs) = map fst xs"
  by (induction xs) simp_all

lemma rebind_programs_keys: "map fst (rebind_programs cp xs) = map fst xs"
  by (induction xs) simp_all

lemma rebind_shaders_ref:
  "e \<in> set (rebind_shaders cp xs) \<Longrightarrow> compilerRef (snd e) = cp"
  by (induction xs) (auto simp: SetShaderCompiler_def)

lemma rebind_programs_ref:
  "e \<in> set (rebind_programs cp xs) \<Longrightarrow> programCompilerRef (snd e) = cp"
  by (induction xs) (auto simp: SetProgramShaderCompiler_def)

lemma map_of_rebind_shaders:
  "map_of (rebind_shaders cp xs) k = map_option (\<lambda>sh. sh\<lparr>compilerRef := cp\<rparr>) (map_of xs k)"
  by (induction xs) (auto simp: SetShaderCompiler_def)

lemma CreateShaderCompiler_eq:
  assumes "mShaderCompiler c = None"
  shows "CreateShaderCompiler c =
           c\<lparr>mShaderCompiler := Some (heapNext c), heapNext := Suc (heapNext c),
             mResourceManager := (mResourceManager c)
               \<lparr>mShaderArray :=
                  rebind_shaders (Some (heapNext c)) (mShaderArray (mResourceManager c)),
                mShaderProgramArray :=
                  rebind_programs (Some (heapNext c)) (mShaderProgramArray (mResourceManager c))\<rparr>\<rparr>"
  using assms by (simp add: CreateShaderCompiler_def Let_def)

text \<open>
  C7. When no compiler instance exists, \<^verbatim>\<open>CreateShaderCompiler\<close> creates one, and on return
  every stored shader and every stored program refers to it, the stored objects are the
  same as before, and every handle that resolved before resolves to the same shader bound
  to the new instance. When an instance exists the call changes nothing.
\<close>

theorem CreateShaderCompiler_rebinds:
  "(mShaderCompiler c = None \<longrightarrow>
      (\<exists>cp. mShaderCompiler (CreateShaderCompiler c) = Some cp
         \<and> (\<forall>e \<in> set (mShaderArray (mResourceManager (CreateShaderCompiler c))).
               compilerRef (snd e) = Some cp)
         \<and> (\<forall>e \<in> set (mShaderProgramArray (mResourceManager (CreateShaderCompiler c))).
               programCompilerRef (snd e) = Some cp)
         \<and> map fst (mShaderArray (mResourceManager (CreateShaderCompiler c)))
             = map fst (mShaderArray (mResourceManager c))
         \<and> map fst (mShaderProgramArray (mResourceManager (CreateShaderCompiler c)))
             = map fst (mShaderProgramArray (mResourceManager c))
         \<and> (\<forall>h p sh. snd (GetShaderPtr c h) = Some (p, sh) \<longrightarrow>
               snd (GetShaderPtr (CreateShaderCompiler c) h)
                 = Some (p, sh\<lparr>compilerRef := Some cp\<rparr>))))
   \<and> (mShaderCompiler c \<noteq> None \<longrightarrow> CreateShaderCompiler c = c)"
proof (intro conjI impI)
  assume n: "mShaderCompiler c = None"
  note eq = CreateShaderCompiler_eq [OF n]
  let ?cp = "heapNext c"
  have res: "snd (GetShaderPtr (CreateShaderCompiler c) h)
               = Some (p, sh\<lparr>compilerRef := Some ?cp\<rparr>)"
    if v: "snd (GetShaderPtr c h) = Some (p, sh)" for h p sh
  proof -
    have "GetShaderPtr (CreateShaderCompiler c) h
            = (CreateShaderCompiler c, Some (p, sh\<lparr>compilerRef := Some ?cp\<rparr>))"
      using GetShaderPtr_SomeD [OF v]
      by (intro GetShaderPtr_SomeI) (simp_all add: eq map_of_rebind_shaders)
    then show ?thesis by simp
  qed
  show "\<exists>cp. mShaderCompiler (CreateShaderCompiler c) = Some cp
         \<and> (\<forall>e \<in> set (mShaderArray (mResourceManager (CreateShaderCompiler c))).
               compilerRef (snd e) = Some cp)
         \<and> (\<forall>e \<in> set (mShaderProgramArray (mResourceManager (CreateShaderCompiler c))).
               programCompilerRef (snd e) = Some cp)
         \<and> map fst (mShaderArray (mResourceManager (CreateShaderCompiler c)))
             = map fst (mShaderArray (mResourceManager c))
         \<and> map fst (mShaderProgramArray (mResourceManager (CreateShaderCompiler c)))
             = map fst (mShaderProgramArray (mResourceManager c))
         \<and> (\<forall>h p sh. snd (GetShaderPtr c h) = Some (p, sh) \<longrightarrow>
               snd (GetShaderPtr (CreateShaderCompiler c) h)
                 = Some (p, sh\<lparr>compilerRef := Some cp\<rparr>))"
  proof (intro exI [of _ ?cp] conjI ballI allI impI)
    show "mShaderCompiler (CreateShaderCompiler c) = Some ?cp" by (simp add: eq)
  next
    fix e assume "e \<in> set (mShaderArray (mResourceManager (CreateShaderCompiler c)))"
    then show "compilerRef (snd e) = Some ?cp"
      by (simp add: eq rebind_shaders_ref)
  next
    fix e assume "e \<in> set (mShaderProgramArray (mResourceManager (CreateShaderCompiler c)))"
    then show "programCompilerRef (snd e) = Some ?cp"
      by (simp add: eq rebind_programs_ref)
  next
    show "map fst (mShaderArray (mResourceManager (CreateShaderCompiler c)))
             = map fst (mShaderArray (mResourceManager c))"
      by (simp add: eq rebind_shaders_keys)
  next
    show "map fst (mShaderProgramArray (mResourceManager (CreateShaderCompiler c)))
             = map fst (mShaderProgramArray (mResourceManager c))"
      by (simp add: eq rebind_programs_keys)
  next
    fix h p sh assume "snd (GetShaderPtr c h) = Some (p, sh)"
    then show "snd (GetShaderPtr (CreateShaderCompiler c) h)
                 = Some (p, sh\<lparr>compilerRef := Some ?cp\<rparr>)"
      by (rule res)
  qed
next
  assume "mShaderCompiler c \<noteq> None"
  then show "CreateShaderCompiler c = c"
    by (auto simp: CreateShaderCompiler_def)
qed

theorem CreateShaderCompiler_rebinds_witness:
  "mShaderCompiler ctx0 = None
   \<and> mShaderCompiler (CreateShaderCompiler ctx0) = Some 0
   \<and> snd (GetShaderPtr ctx0 1) = Some (1, shader1)
   \<and> compilerRef shader1 = None
   \<and> snd (GetShaderPtr (CreateShaderCompiler ctx0) 1) = Some (1, shader1\<lparr>compilerRef := Some 0\<rparr>)
   \<and> map_of (mShaderProgramArray (mResourceManager (CreateShaderCompiler ctx0))) 1
        = Some \<lparr>programCompilerRef = Some 0\<rparr>
   \<and> mShaderCompiler (CreateShaderCompiler ctx0) \<noteq> None
   \<and> CreateShaderCompiler (CreateShaderCompiler ctx0) = CreateShaderCompiler ctx0"
proof -
  have n: "mShaderCompiler ctx0 = None" by (simp add: ctx0_def)
  have v: "snd (GetShaderPtr ctx0 1) = Some (1, shader1)"
    by (simp add: GetShaderPtr_def model_defs example_defs word_le_nat_alt)
  have r: "compilerRef shader1 = None" by (simp add: shader1_def)
  have c0: "mShaderCompiler (CreateShaderCompiler ctx0) = Some 0"
    by (simp add: CreateShaderCompiler_eq [OF n]) (simp add: ctx0_def)
  from CreateShaderCompiler_rebinds [of ctx0] n obtain cp
    where cp: "mShaderCompiler (CreateShaderCompiler ctx0) = Some cp"
      and rs: "\<forall>h p sh. snd (GetShaderPtr ctx0 h) = Some (p, sh) \<longrightarrow>
               snd (GetShaderPtr (CreateShaderCompiler ctx0) h)
                 = Some (p, sh\<lparr>compilerRef := Some cp\<rparr>)"
    by blast
  have cp0: "cp = 0" using cp c0 by simp
  have a: "snd (GetShaderPtr (CreateShaderCompiler ctx0) 1) = Some (1, shader1\<lparr>compilerRef := Some 0\<rparr>)"
    using rs v cp0 by blast
  have b: "map_of (mShaderProgramArray (mResourceManager (CreateShaderCompiler ctx0))) 1
        = Some \<lparr>programCompilerRef = Some 0\<rparr>"
    by (simp add: CreateShaderCompiler_eq [OF n]) (simp add: example_defs SetProgramShaderCompiler_def)
  have nn: "mShaderCompiler (CreateShaderCompiler ctx0) \<noteq> None" using c0 by simp
  have i: "CreateShaderCompiler (CreateShaderCompiler ctx0) = CreateShaderCompiler ctx0"
    using CreateShaderCompiler_rebinds [of "CreateShaderCompiler ctx0"] nn by blast
  show ?thesis using n c0 v r a b nn i by simp
qed

subsection \<open>The shader predicate\<close>

text \<open>
  C10. \<^verbatim>\<open>IsShader\<close> returns the context as it received it, error slot included. Its answer
  is false for handle 0, for a handle that is not below the object count, for a handle
  with no namespace entry and for a handle registered as a program; it is true exactly
  for a handle that resolves with kind \<^verbatim>\<open>SHADER_ID\<close>.
\<close>

theorem IsShader_records_no_error:
  "fst (IsShader c h) = c
   \<and> (h = 0 \<or> mShadingObjectCount (mResourceManager c) \<le> h
        \<or> mShadingObjectPool (mResourceManager c) h = None
        \<or> (\<exists>e. mShadingObjectPool (mResourceManager c) h = Some e \<and> type e = SHADER_PROGRAM_ID)
      \<longrightarrow> \<not> snd (IsShader c h))
   \<and> (snd (IsShader c h) \<longleftrightarrow>
        (\<exists>p. h \<noteq> 0 \<and> h < mShadingObjectCount (mResourceManager c) \<and> p \<noteq> 0
           \<and> mShadingObjectPool (mResourceManager c) h = Some \<lparr>type = SHADER_ID, arrayIndex = p\<rparr>))"
  by (auto simp: IsShader_def IsShadingObject_def split: option.splits)

theorem IsShader_records_no_error_witness:
  "fst (IsShader ctx0 0) = ctx0 \<and> \<not> snd (IsShader ctx0 0)
   \<and> fst (IsShader ctx0 2) = ctx0 \<and> \<not> snd (IsShader ctx0 2)
   \<and> fst (IsShader ctx0 4) = ctx0 \<and> \<not> snd (IsShader ctx0 4)
   \<and> fst (IsShader ctx0 9) = ctx0 \<and> \<not> snd (IsShader ctx0 9)
   \<and> snd (IsShader ctx0 1)
   \<and> lastError (fst (GetShaderPtr ctx0 2)) = GL_INVALID_OPERATION
   \<and> lastError ctx0 = GL_NO_ERROR"
proof -
  have p2: "mShadingObjectPool (mResourceManager ctx0) 2
              = Some \<lparr>type = SHADER_PROGRAM_ID, arrayIndex = 1\<rparr>"
    by (simp add: example_defs)
  have p4: "mShadingObjectPool (mResourceManager ctx0) 4 = None"
    by (simp add: example_defs)
  have c9: "mShadingObjectCount (mResourceManager ctx0) \<le> 9"
    by (simp add: example_defs word_le_nat_alt)
  have p1: "1 < mShadingObjectCount (mResourceManager ctx0)
      \<and> mShadingObjectPool (mResourceManager ctx0) 1 = Some \<lparr>type = SHADER_ID, arrayIndex = 1\<rparr>"
    by (simp add: example_defs word_less_nat_alt)
  have a0: "\<not> snd (IsShader ctx0 0)" using IsShader_records_no_error [of ctx0 0] by simp
  have a2: "\<not> snd (IsShader ctx0 2)" using IsShader_records_no_error [of ctx0 2] p2 by simp
  have a4: "\<not> snd (IsShader ctx0 4)" using IsShader_records_no_error [of ctx0 4] p4 by simp
  have a9: "\<not> snd (IsShader ctx0 9)" using IsShader_records_no_error [of ctx0 9] c9 by simp
  have a1: "snd (IsShader ctx0 1)" using IsShader_records_no_error [of ctx0 1] p1 by simp
  have e: "lastError (fst (GetShaderPtr ctx0 2)) = GL_INVALID_OPERATION"
    by (simp add: GetShaderPtr_def model_defs example_defs word_le_nat_alt)
  have n: "lastError ctx0 = GL_NO_ERROR" by (simp add: ctx0_def)
  show ?thesis
    using a0 a2 a4 a9 a1 e n IsShader_records_no_error [of ctx0 0]
      IsShader_records_no_error [of ctx0 2] IsShader_records_no_error [of ctx0 4]
      IsShader_records_no_error [of ctx0 9]
    by simp
qed

subsection \<open>Precision formats\<close>

text \<open>
  The integer ranges: \<open>floor_log2_abs\<close> is the floor of the binary logarithm of the
  absolute value, and at the largest value of a signed type of \<open>bits\<close> bits it is
  \<open>bits - 2\<close>.
\<close>

lemma floor_log2_abs_16: "floor_log2_abs (numeric_limits_max 16) = 14"
  by (simp add: floor_log2_abs_def numeric_limits_max_def compute_floorlog)

lemma floor_log2_abs_32: "floor_log2_abs (numeric_limits_max 32) = 30"
  by (simp add: floor_log2_abs_def numeric_limits_max_def compute_floorlog)

lemma floor_log2_abs_real:
  assumes "0 < x"
  shows "int (floorlog 2 (nat \<bar>x\<bar>) - 1) = \<lfloor>log 2 (real_of_int \<bar>x\<bar>)\<rfloor>"
proof -
  have a: "0 < nat \<bar>x\<bar>" using assms by simp
  have f: "floorlog 2 (nat \<bar>x\<bar>) = nat \<lfloor>log 2 (real (nat \<bar>x\<bar>))\<rfloor> + 1"
    using a by (simp add: floorlog_def)
  have "1 \<le> real (nat \<bar>x\<bar>)" using a by linarith
  then have "0 \<le> log 2 (real (nat \<bar>x\<bar>))" by simp
  then have "0 \<le> \<lfloor>log 2 (real (nat \<bar>x\<bar>))\<rfloor>" by simp
  moreover have "real (nat \<bar>x\<bar>) = real_of_int \<bar>x\<bar>" by simp
  ultimately show ?thesis using f by simp
qed

lemma floor_log2_abs_numeric_limits_max:
  assumes "2 \<le> bits"
  shows "floor_log2_abs (numeric_limits_max bits) = word_of_nat (bits - 2)"
proof -
  obtain k where k: "bits = Suc (Suc k)"
    using assms by (metis Suc_le_D numeral_2_eq_2 Suc_le_mono)
  have "(2::int) ^ Suc k - 1 = int (2 ^ Suc k - 1)"
    by simp
  then have n: "nat \<bar>numeric_limits_max bits\<bar> = 2 ^ Suc k - 1"
    by (simp only: numeric_limits_max_def k diff_Suc_1 abs_of_nat nat_int)
  have up: "floorlog 2 (2 ^ Suc k - 1 :: nat) \<le> Suc k"
    by (rule floorlog_leI) simp_all
  have "(2::nat) ^ k \<le> 2 ^ Suc k - 1" by simp
  then have lo: "Suc k \<le> floorlog 2 (2 ^ Suc k - 1 :: nat)"
    by (rule floorlog_ge_SucI) simp
  from up lo have fl: "floorlog 2 (2 ^ Suc k - 1 :: nat) = Suc k" by (rule le_antisym)
  have m: "floorlog 2 (nat \<bar>numeric_limits_max bits\<bar>) = Suc k" by (simp only: n fl)
  have b: "bits - 2 = k" by (simp add: k)
  show ?thesis unfolding floor_log2_abs_def m b by simp
qed

text \<open>
  C9, as amended. On a context that reports a shader compiler and for a shader type that
  is \<^verbatim>\<open>GL_VERTEX_SHADER\<close> or \<^verbatim>\<open>GL_FRAGMENT_SHADER\<close>: the three float precision types
  report the same range, twice the value of the exponent expression, and the same
  precision, the value of the mantissa expression; \<^verbatim>\<open>GL_LOW_INT\<close> and \<^verbatim>\<open>GL_MEDIUM_INT\<close>
  report the range 14 of a 16-bit signed integer and \<^verbatim>\<open>GL_HIGH_INT\<close> the range 30 of a
  32-bit one, each with precision 0; any other precision type records
  \<^verbatim>\<open>GL_INVALID_ENUM\<close> and leaves both outputs as they were. Nothing else of the context
  changes.
\<close>

theorem GetShaderPrecisionFormat_limits:
  assumes sup: "shaderCompilerSupport c"
      and st: "shadertype = GL_VERTEX_SHADER \<or> shadertype = GL_FRAGMENT_SHADER"
  shows "(pt = GL_LOW_FLOAT \<or> pt = GL_MEDIUM_FLOAT \<or> pt = GL_HIGH_FLOAT \<longrightarrow>
            GetShaderPrecisionFormat fl c shadertype pt rng precision =
              (c, (flt_max_log2 fl, flt_max_log2 fl), flt_epsilon_neg_log2 fl))
       \<and> (pt = GL_LOW_INT \<or> pt = GL_MEDIUM_INT \<longrightarrow>
            GetShaderPrecisionFormat fl c shadertype pt rng precision = (c, (14, 14), 0))
       \<and> (pt = GL_HIGH_INT \<longrightarrow>
            GetShaderPrecisionFormat fl c shadertype pt rng precision = (c, (30, 30), 0))
       \<and> (pt \<noteq> GL_LOW_FLOAT \<and> pt \<noteq> GL_MEDIUM_FLOAT \<and> pt \<noteq> GL_HIGH_FLOAT
           \<and> pt \<noteq> GL_LOW_INT \<and> pt \<noteq> GL_MEDIUM_INT \<and> pt \<noteq> GL_HIGH_INT \<longrightarrow>
            GetShaderPrecisionFormat fl c shadertype pt rng precision =
              (RecordError c GL_INVALID_ENUM, rng, precision))"
proof -
  have h: "HasShaderCompiler c = (c, True)"
    using sup by (simp add: HasShaderCompiler_def)
  have s: "\<not> (shadertype \<noteq> GL_VERTEX_SHADER \<and> shadertype \<noteq> GL_FRAGMENT_SHADER)"
    using st by blast
  show ?thesis
    by (simp add: GetShaderPrecisionFormat_def h s floor_log2_abs_16 floor_log2_abs_32)
       (simp add: GL_defs)
qed

theorem GetShaderPrecisionFormat_limits_witness:
  "shaderCompilerSupport ctx0
   \<and> GetShaderPrecisionFormat fl0 ctx0 GL_VERTEX_SHADER GL_LOW_FLOAT (5, 6) 7 = (ctx0, (127, 127), 23)
   \<and> GetShaderPrecisionFormat fl0 ctx0 GL_VERTEX_SHADER GL_MEDIUM_FLOAT (5, 6) 7 = (ctx0, (127, 127), 23)
   \<and> GetShaderPrecisionFormat fl0 ctx0 GL_FRAGMENT_SHADER GL_HIGH_FLOAT (5, 6) 7 = (ctx0, (127, 127), 23)
   \<and> GetShaderPrecisionFormat fl0 ctx0 GL_FRAGMENT_SHADER GL_MEDIUM_INT (5, 6) 7 = (ctx0, (14, 14), 0)
   \<and> GetShaderPrecisionFormat fl0 ctx0 GL_FRAGMENT_SHADER GL_HIGH_INT (5, 6) 7 = (ctx0, (30, 30), 0)
   \<and> GetShaderPrecisionFormat fl0 ctx0 GL_VERTEX_SHADER 0 (5, 6) 7
        = (ctx0\<lparr>lastError := GL_INVALID_ENUM\<rparr>, (5, 6), 7)"
proof -
  have sup: "shaderCompilerSupport ctx0" by (simp add: ctx0_def)
  note v = GetShaderPrecisionFormat_limits [OF sup, of GL_VERTEX_SHADER _ fl0 "(5, 6)" 7]
  note f = GetShaderPrecisionFormat_limits [OF sup, of GL_FRAGMENT_SHADER _ fl0 "(5, 6)" 7]
  have a: "GetShaderPrecisionFormat fl0 ctx0 GL_VERTEX_SHADER GL_LOW_FLOAT (5, 6) 7 = (ctx0, (127, 127), 23)"
    using v [of GL_LOW_FLOAT] by (simp add: fl0_def)
  have b: "GetShaderPrecisionFormat fl0 ctx0 GL_VERTEX_SHADER GL_MEDIUM_FLOAT (5, 6) 7 = (ctx0, (127, 127), 23)"
    using v [of GL_MEDIUM_FLOAT] by (simp add: fl0_def)
  have c: "GetShaderPrecisionFormat fl0 ctx0 GL_FRAGMENT_SHADER GL_HIGH_FLOAT (5, 6) 7 = (ctx0, (127, 127), 23)"
    using f [of GL_HIGH_FLOAT] by (simp add: fl0_def)
  have d: "GetShaderPrecisionFormat fl0 ctx0 GL_FRAGMENT_SHADER GL_MEDIUM_INT (5, 6) 7 = (ctx0, (14, 14), 0)"
    using f [of GL_MEDIUM_INT] by simp
  have e: "GetShaderPrecisionFormat fl0 ctx0 GL_FRAGMENT_SHADER GL_HIGH_INT (5, 6) 7 = (ctx0, (30, 30), 0)"
    using f [of GL_HIGH_INT] by simp
  have g: "GetShaderPrecisionFormat fl0 ctx0 GL_VERTEX_SHADER 0 (5, 6) 7
        = (ctx0\<lparr>lastError := GL_INVALID_ENUM\<rparr>, (5, 6), 7)"
    using v [of 0] by (simp add: GL_defs RecordError_def)
  show ?thesis using sup a b c d e g by simp
qed

text \<open>
  C9 as stated fails on a context that reports no shader compiler: the capability check
  comes first, so an unrecognised precision type records \<^verbatim>\<open>GL_INVALID_OPERATION\<close>, not
  \<^verbatim>\<open>GL_INVALID_ENUM\<close>, and \<^verbatim>\<open>GL_HIGH_INT\<close> reports nothing for a vertex shader.
\<close>

theorem GetShaderPrecisionFormat_gate_counterexample:
  "lastError ctxNoCompiler = GL_NO_ERROR
   \<and> GetShaderPrecisionFormat fl0 ctxNoCompiler GL_VERTEX_SHADER 0 (5, 6) 7
        = (ctxNoCompiler\<lparr>lastError := GL_INVALID_OPERATION\<rparr>, (5, 6), 7)
   \<and> lastError (fst (GetShaderPrecisionFormat fl0 ctxNoCompiler GL_VERTEX_SHADER 0 (5, 6) 7))
        \<noteq> GL_INVALID_ENUM
   \<and> GetShaderPrecisionFormat fl0 ctxNoCompiler GL_VERTEX_SHADER GL_HIGH_INT (5, 6) 7
        = (ctxNoCompiler\<lparr>lastError := GL_INVALID_OPERATION\<rparr>, (5, 6), 7)"
  by (simp add: GetShaderPrecisionFormat_def HasShaderCompiler_def RecordError_def
      example_defs ctxNoCompiler_def GL_defs)

end
